theory Spec2Isabelle
  imports Main "HOL-Library.Sublist"
begin

section \<open>Python values\<close>

text \<open>
  The server handles values produced by \<^verbatim>\<open>json.loads\<close>: \<^verbatim>\<open>None\<close>, booleans, integers,
  floats, strings, lists and dicts. A dict is an association list in insertion order, read
  with \<open>map_of\<close>; a float is a mantissa and a binary exponent (only whether it is zero is
  ever inspected).
\<close>

datatype json =
    JNull
  | JBool bool
  | JInt int
  | JFloat int int
  | JStr string
  | JArr "json list"
  | JObj "(string \<times> json) list"

text \<open>
  Exceptions are values. Where the program only tests the class of an exception (an
  \<^verbatim>\<open>except\<close> clause) or only writes it to the log, the class is all that is modelled;
  where the program sends \<^verbatim>\<open>str(e)\<close> to the client, the exception carries its text.
  \<open>OtherException\<close> is any further subclass of \<^verbatim>\<open>Exception\<close> (a validation error of
  the SDK, a transport error); \<open>JSONDecodeError\<close> is a subclass of \<^verbatim>\<open>ValueError\<close>.
\<close>

datatype exc_class =
    TypeError
  | KeyError
  | IndexError
  | AttributeError
  | ValueError
  | JSONDecodeError
  | TimeoutError
  | WebSocketDisconnect
  | OtherException

datatype exn = Exn (exn_class: exc_class) (exn_str: string)

fun is_ValueError :: "exc_class \<Rightarrow> bool" where
  "is_ValueError ValueError = True"
| "is_ValueError JSONDecodeError = True"
| "is_ValueError _ = False"

text \<open>Truthiness, as \<^verbatim>\<open>if x:\<close> tests it.\<close>

fun truthy :: "json \<Rightarrow> bool" where
  "truthy JNull = False"
| "truthy (JBool b) = b"
| "truthy (JInt n) = (n \<noteq> 0)"
| "truthy (JFloat m e) = (m \<noteq> 0)"
| "truthy (JStr s) = (s \<noteq> [])"
| "truthy (JArr xs) = (xs \<noteq> [])"
| "truthy (JObj kvs) = (kvs \<noteq> [])"

text \<open>\<^verbatim>\<open>sub in s\<close> on two strings: \<open>sub\<close> occurs in \<open>s\<close> as a contiguous run.\<close>

fun str_contains :: "string \<Rightarrow> string \<Rightarrow> bool" where
  "str_contains sub [] = (sub = [])"
| "str_contains sub (c # cs) = (prefix sub (c # cs) \<or> str_contains sub cs)"

text \<open>
  \<^verbatim>\<open>k in x\<close> for a string \<open>k\<close>: a key test on a dict, an element test on a list, a
  substring test on a string, and a \<^verbatim>\<open>TypeError\<close> on every other value.
\<close>

fun py_in :: "string \<Rightarrow> json \<Rightarrow> exc_class + bool" where
  "py_in k (JObj kvs) = Inr (map_of kvs k \<noteq> None)"
| "py_in k (JArr xs) = Inr (JStr k \<in> set xs)"
| "py_in k (JStr s) = Inr (str_contains k s)"
| "py_in k _ = Inl TypeError"

text \<open>\<^verbatim>\<open>x[k]\<close> for a string \<open>k\<close>.\<close>

fun py_getitem :: "json \<Rightarrow> string \<Rightarrow> exc_class + json" where
  "py_getitem (JObj kvs) k = (case map_of kvs k of None \<Rightarrow> Inl KeyError | Some v \<Rightarrow> Inr v)"
| "py_getitem _ k = Inl TypeError"

text \<open>
  \<^verbatim>\<open>x[0]\<close>: the first element of a list or string (\<^verbatim>\<open>IndexError\<close> when empty), a
  \<^verbatim>\<open>KeyError\<close> on a dict (its keys are strings), a \<^verbatim>\<open>TypeError\<close> otherwise.
\<close>

fun py_getitem0 :: "json \<Rightarrow> exc_class + json" where
  "py_getitem0 (JArr []) = Inl IndexError"
| "py_getitem0 (JArr (x # xs)) = Inr x"
| "py_getitem0 (JStr []) = Inl IndexError"
| "py_getitem0 (JStr (c # cs)) = Inr (JStr [c])"
| "py_getitem0 (JObj kvs) = Inl KeyError"
| "py_getitem0 _ = Inl TypeError"

text \<open>
  \<^verbatim>\<open>for v in x\<close>: the elements of a list, the keys of a dict, the characters of a string;
  a \<^verbatim>\<open>TypeError\<close> on every other value.
\<close>

fun py_iter :: "json \<Rightarrow> exc_class + json list" where
  "py_iter (JArr xs) = Inr xs"
| "py_iter (JObj kvs) = Inr (map (\<lambda>kv. JStr (fst kv)) kvs)"
| "py_iter (JStr s) = Inr (map (\<lambda>c. JStr [c]) s)"
| "py_iter _ = Inl TypeError"

text \<open>\<^verbatim>\<open>x.get(k, d)\<close>: only a dict has the method.\<close>

fun py_get :: "json \<Rightarrow> string \<Rightarrow> json \<Rightarrow> exc_class + json" where
  "py_get (JObj kvs) k d = (case map_of kvs k of None \<Rightarrow> Inr d | Some v \<Rightarrow> Inr v)"
| "py_get _ k d = Inl AttributeError"

text \<open>\<^verbatim>\<open>list(x.keys())\<close>: only a dict has the method.\<close>

fun py_keys :: "json \<Rightarrow> exc_class + json list" where
  "py_keys (JObj kvs) = Inr (map (\<lambda>kv. JStr (fst kv)) kvs)"
| "py_keys _ = Inl AttributeError"

fun is_dict :: "json \<Rightarrow> bool" where
  "is_dict (JObj kvs) = True"
| "is_dict _ = False"

fun is_str :: "json \<Rightarrow> bool" where
  "is_str (JStr s) = True"
| "is_str _ = False"

section \<open>The upstream SDK\<close>

text \<open>
  The \<^verbatim>\<open>google.genai\<close> types are not part of the repository. A constructor that receives
  a value taken from the client's message may refuse it; which values it refuses is a
  parameter \<open>sdk\<close> of the model: \<open>sdk c = Some e\<close> when the call \<open>c\<close> raises \<open>e\<close>, and
  \<open>None\<close> when it returns the object.
\<close>

datatype sdk_call =
    C_Modality json
  | C_Part json
  | C_FunctionDeclaration json json json
  | C_PrebuiltVoiceConfig json
  | C_FunctionResponse json json json

type_synonym sdk = "sdk_call \<Rightarrow> exc_class option"

type_synonym bytes = "nat list"

datatype function_response =
  FunctionResponse (fr_name: json) (fr_id: json) (fr_response: json)

text \<open>The calls the forwarding pumps make on the upstream session.\<close>

datatype upstream_call =
    SendRealtimeInput bytes nat
  | Send json json
  | SendToolResponse "function_response list"

section \<open>Client ingress and the control-forward pump\<close>

text \<open>
  \<^verbatim>\<open>receive_from_client\<close> (main.py), the body run on the parsed payload of a text frame:
  what it puts on the text queue. \<open>Inl e\<close>: the exception leaves the inner \<^verbatim>\<open>try\<close> (which
  catches \<^verbatim>\<open>JSONDecodeError\<close> only) and ends the task. A payload with neither key is
  dropped after the debug log, whose argument \<^verbatim>\<open>list(payload.keys())\<close> is evaluated
  whatever the log level, and raises when the payload is not a dict.
\<close>

definition client_content_msg :: "json \<Rightarrow> json \<Rightarrow> json" where
  "client_content_msg turns turn_complete =
     JObj [(''type'', JStr ''client_content''), (''turns'', turns), (''turnComplete'', turn_complete)]"

definition tool_response_msg :: "json \<Rightarrow> json" where
  "tool_response_msg frs = JObj [(''type'', JStr ''tool_response''), (''functionResponses'', frs)]"

definition on_text_payload :: "json \<Rightarrow> exc_class + json option" where
  "on_text_payload payload =
     (case py_in ''clientContent'' payload of
        Inl e \<Rightarrow> Inl e
      | Inr True \<Rightarrow>
          (case py_getitem payload ''clientContent'' of
             Inl e \<Rightarrow> Inl e
           | Inr cc \<Rightarrow>
               (case py_get cc ''turns'' (JStr []) of
                  Inl e \<Rightarrow> Inl e
                | Inr turns \<Rightarrow>
                    (case py_get cc ''turnComplete'' (JBool False) of
                       Inl e \<Rightarrow> Inl e
                     | Inr tc \<Rightarrow> Inr (Some (client_content_msg turns tc)))))
      | Inr False \<Rightarrow>
          (case py_in ''toolResponse'' payload of
             Inl e \<Rightarrow> Inl e
           | Inr True \<Rightarrow>
               (case py_getitem payload ''toolResponse'' of
                  Inl e \<Rightarrow> Inl e
                | Inr tr \<Rightarrow>
                    (case py_get tr ''functionResponses'' JNull of
                       Inl e \<Rightarrow> Inl e
                     | Inr frs \<Rightarrow> Inr (Some (tool_response_msg frs))))
           | Inr False \<Rightarrow>
               (case py_keys payload of
                  Inl e \<Rightarrow> Inl e
                | Inr keys \<Rightarrow> Inr None)))"

text \<open>
  \<^verbatim>\<open>send_text\<close> (gemini_live.py), the loop over the records of a tool response: each
  record becomes a \<^verbatim>\<open>types.FunctionResponse\<close>, appended to the list built so far.
\<close>

definition ok_marker :: json where
  "ok_marker = JObj [(''result'', JStr ''ok'')]"

fun function_responses :: "sdk \<Rightarrow> json list \<Rightarrow> function_response list \<Rightarrow> exc_class + function_response list" where
  "function_responses sdk [] acc = Inr acc"
| "function_responses sdk (r # rs) acc =
     (case py_get r ''name'' JNull of
        Inl e \<Rightarrow> Inl e
      | Inr n \<Rightarrow>
          (case py_get r ''id'' JNull of
             Inl e \<Rightarrow> Inl e
           | Inr i \<Rightarrow>
               (case py_get r ''response'' ok_marker of
                  Inl e \<Rightarrow> Inl e
                | Inr resp \<Rightarrow>
                    (case sdk (C_FunctionResponse n i resp) of
                       Some e \<Rightarrow> Inl e
                     | None \<Rightarrow> function_responses sdk rs (acc @ [FunctionResponse n i resp])))))"

text \<open>
  \<^verbatim>\<open>send_text\<close>, one iteration of its loop on a dequeued message: the calls made on the
  upstream session. \<open>Inl e\<close>: the exception is not caught (the task catches
  \<^verbatim>\<open>CancelledError\<close> only) and ends the task.
\<close>

definition send_text :: "sdk \<Rightarrow> json \<Rightarrow> exc_class + upstream_call list" where
  "send_text sdk msg =
     (case py_get msg ''type'' JNull of
        Inl e \<Rightarrow> Inl e
      | Inr msg_type \<Rightarrow>
          if msg_type = JStr ''client_content'' then
            (case py_get msg ''turns'' (JStr []) of
               Inl e \<Rightarrow> Inl e
             | Inr turns_text \<Rightarrow>
                 (case py_get msg ''turnComplete'' (JBool False) of
                    Inl e \<Rightarrow> Inl e
                  | Inr end_of_turn \<Rightarrow> Inr [Send turns_text end_of_turn]))
          else if msg_type = JStr ''tool_response'' then
            (case py_get msg ''functionResponses'' JNull of
               Inl e \<Rightarrow> Inl e
             | Inr fr \<Rightarrow>
                 if fr = JNull then Inr []
                 else
                   (case py_iter (if is_dict fr then JArr [fr] else fr) of
                      Inl e \<Rightarrow> Inl e
                    | Inr rs \<Rightarrow>
                        (case function_responses sdk rs [] of
                           Inl e \<Rightarrow> Inl e
                         | Inr frs \<Rightarrow> Inr [SendToolResponse frs])))
          else Inr [])"

text \<open>
  A text payload from the client transport to the upstream session: through the ingress
  task, the text queue and the control-forward pump.
\<close>

datatype forwarded =
    IngressEnded exc_class
  | Dropped
  | ForwardEnded exc_class
  | Forwarded "upstream_call list"

definition control_forward :: "sdk \<Rightarrow> json \<Rightarrow> forwarded" where
  "control_forward sdk payload =
     (case on_text_payload payload of
        Inl e \<Rightarrow> IngressEnded e
      | Inr None \<Rightarrow> Dropped
      | Inr (Some msg) \<Rightarrow>
          (case send_text sdk msg of
             Inl e \<Rightarrow> ForwardEnded e
           | Inr calls \<Rightarrow> Forwarded calls))"

definition tool_response_frame :: "json \<Rightarrow> json" where
  "tool_response_frame frs = JObj [(''toolResponse'', JObj [(''functionResponses'', frs)])]"

text \<open>
  What the spec asks of one record of a tool response: the function-result record sent
  upstream has the record's name and call id, and its result payload, or the generic
  success marker when the record has none.
\<close>

definition sent_for :: "json \<Rightarrow> function_response \<Rightarrow> bool" where
  "sent_for r f =
     (case r of
        JObj kvs \<Rightarrow>
          fr_name f = (case map_of kvs ''name'' of None \<Rightarrow> JNull | Some v \<Rightarrow> v) \<and>
          fr_id f = (case map_of kvs ''id'' of None \<Rightarrow> JNull | Some v \<Rightarrow> v) \<and>
          fr_response f =
            (case map_of kvs ''response'' of None \<Rightarrow> JObj [(''result'', JStr ''ok'')] | Some v \<Rightarrow> v)
      | _ \<Rightarrow> False)"

section \<open>The session configuration\<close>

text \<open>
  \<^verbatim>\<open>GeminiLive.start_session\<close> (gemini_live.py), the part that builds \<^verbatim>\<open>config_args\<close>
  from the client's setup object. The dict \<^verbatim>\<open>config_args\<close> is a record: a key that the
  code may leave out is an option (or a flag, where the value is a constant object).
  \<open>system_instruction = Some t\<close> stands for \<^verbatim>\<open>Content(parts=[Part(text=t)])\<close>, and
  \<open>speech_config = Some v\<close> for the speech configuration of prebuilt voice \<open>v\<close>.

  \<^verbatim>\<open>types.Modality\<close> is an enum of the SDK whose lookup ignores case: its members are
  \<^verbatim>\<open>MODALITY_UNSPECIFIED\<close>, \<^verbatim>\<open>TEXT\<close>, \<^verbatim>\<open>IMAGE\<close> and \<^verbatim>\<open>AUDIO\<close>, each of the value of its
  name, and \<^verbatim>\<open>types.Modality(m)\<close> is the member named by \<open>m\<close> in upper case; for any
  other value that the SDK accepts it makes a member of that value. \<open>Modality n\<close> is the
  member of name \<open>n\<close>, \<open>OtherModality v\<close> a member made for the value \<open>v\<close>. Case is that of
  the ASCII letters.
\<close>

datatype modality = Modality string | OtherModality json

definition modality_names :: "string list" where
  "modality_names = [''MODALITY_UNSPECIFIED'', ''TEXT'', ''IMAGE'', ''AUDIO'']"

definition upper_char :: "char \<Rightarrow> char" where
  "upper_char c =
     (case map_of (zip ''abcdefghijklmnopqrstuvwxyz'' ''ABCDEFGHIJKLMNOPQRSTUVWXYZ'') c of
        None \<Rightarrow> c
      | Some d \<Rightarrow> d)"

definition types_Modality :: "json \<Rightarrow> modality" where
  "types_Modality m =
     (case m of
        JStr s \<Rightarrow>
          if map upper_char s \<in> set modality_names then Modality (map upper_char s)
          else OtherModality m
      | _ \<Rightarrow> OtherModality m)"

definition Modality_AUDIO :: modality where
  "Modality_AUDIO = Modality ''AUDIO''"

datatype function_declaration =
  FunctionDeclaration (fd_name: json) (fd_description: json) (fd_parameters: json)

datatype tool = Tool (function_declarations: "function_declaration list")

record config_args =
  response_modalities :: "modality list"
  system_instruction :: "json option"
  tools :: "tool list option"
  context_window_compression :: bool
  output_audio_transcription :: bool
  input_audio_transcription :: bool
  speech_config :: "json option"

definition default_config_args :: config_args where
  "default_config_args =
     \<lparr> response_modalities = [Modality_AUDIO],
       system_instruction = None,
       tools = None,
       context_window_compression = False,
       output_audio_transcription = False,
       input_audio_transcription = False,
       speech_config = None \<rparr>"

definition and_then :: "'e + 'a \<Rightarrow> ('a \<Rightarrow> 'e + 'b) \<Rightarrow> 'e + 'b" where
  "and_then m f = (case m of Inl e \<Rightarrow> Inl e | Inr x \<Rightarrow> f x)"

text \<open>The list comprehension \<^verbatim>\<open>[types.Modality(m) for m in ...]\<close>.\<close>

fun modalities :: "sdk \<Rightarrow> json list \<Rightarrow> exc_class + modality list" where
  "modalities sdk [] = Inr []"
| "modalities sdk (m # ms) =
     (case sdk (C_Modality m) of
        Some e \<Rightarrow> Inl e
      | None \<Rightarrow>
          (case modalities sdk ms of Inl e \<Rightarrow> Inl e | Inr out \<Rightarrow> Inr (types_Modality m # out)))"

text \<open>Response modalities: no \<^verbatim>\<open>try\<close> around this block.\<close>

definition parse_response_modalities :: "sdk \<Rightarrow> json \<Rightarrow> config_args \<Rightarrow> exc_class + config_args" where
  "parse_response_modalities sdk setup_config c =
     (case py_in ''responseModalities'' setup_config of
        Inl e \<Rightarrow> Inl e
      | Inr False \<Rightarrow> Inr c
      | Inr True \<Rightarrow>
          and_then (py_getitem setup_config ''responseModalities'') (\<lambda>v.
          and_then (py_iter v) (\<lambda>ms.
          and_then (modalities sdk ms) (\<lambda>out.
          Inr (c\<lparr>response_modalities := out\<rparr>)))))"

text \<open>
  System instruction. The body of the \<^verbatim>\<open>try\<close> of the object form:
  \<^verbatim>\<open>t = text["parts"][0]["text"]\<close>, then the construction of the part.
\<close>

definition object_form_text :: "sdk \<Rightarrow> json \<Rightarrow> exc_class + json" where
  "object_form_text sdk text =
     and_then (py_getitem text ''parts'') (\<lambda>ps.
     and_then (py_getitem0 ps) (\<lambda>p0.
     and_then (py_getitem p0 ''text'') (\<lambda>t.
     (case sdk (C_Part t) of Some e \<Rightarrow> Inl e | None \<Rightarrow> Inr t))))"

definition parse_system_instruction :: "sdk \<Rightarrow> json \<Rightarrow> config_args \<Rightarrow> exc_class + config_args" where
  "parse_system_instruction sdk setup_config c =
     (case py_in ''systemInstruction'' setup_config of
        Inl e \<Rightarrow> Inl e
      | Inr False \<Rightarrow> Inr c
      | Inr True \<Rightarrow>
          and_then (py_getitem setup_config ''systemInstruction'') (\<lambda>text.
            if is_str text then
              (case sdk (C_Part text) of
                 Some e \<Rightarrow> Inl e
               | None \<Rightarrow> Inr (c\<lparr>system_instruction := Some text\<rparr>))
            else if is_dict text then
              (case object_form_text sdk text of
                 Inl e \<Rightarrow> if e = KeyError \<or> e = IndexError \<or> e = TypeError then Inr c else Inl e
               | Inr t \<Rightarrow> Inr (c\<lparr>system_instruction := Some t\<rparr>))
            else Inr c))"

text \<open>
  Tools. The inner loop builds the list \<^verbatim>\<open>fds\<close> of one block; the outer loop sets
  \<^verbatim>\<open>config_args["tools"]\<close> once per block that has declarations. An exception anywhere
  inside the \<^verbatim>\<open>try\<close> ends the loop and is logged; what earlier blocks stored stays.
\<close>

fun build_fds :: "sdk \<Rightarrow> json list \<Rightarrow> function_declaration list \<Rightarrow> exc_class + function_declaration list" where
  "build_fds sdk [] fds = Inr fds"
| "build_fds sdk (fd # rest) fds =
     and_then (py_get fd ''name'' JNull) (\<lambda>n.
     and_then (py_get fd ''description'' JNull) (\<lambda>d.
     and_then (py_get fd ''parameters'' JNull) (\<lambda>p.
     (case sdk (C_FunctionDeclaration n d p) of
        Some e \<Rightarrow> Inl e
      | None \<Rightarrow> build_fds sdk rest (fds @ [FunctionDeclaration n d p])))))"

definition block_fds :: "sdk \<Rightarrow> json \<Rightarrow> exc_class + function_declaration list" where
  "block_fds sdk tool_block =
     and_then (py_getitem tool_block ''functionDeclarations'') (\<lambda>v.
     and_then (py_iter v) (\<lambda>src.
     build_fds sdk src []))"

fun tool_blocks :: "sdk \<Rightarrow> json list \<Rightarrow> config_args \<Rightarrow> config_args \<times> exc_class option" where
  "tool_blocks sdk [] c = (c, None)"
| "tool_blocks sdk (tool_block # rest) c =
     (case py_in ''functionDeclarations'' tool_block of
        Inl e \<Rightarrow> (c, Some e)
      | Inr False \<Rightarrow> tool_blocks sdk rest c
      | Inr True \<Rightarrow>
          (case block_fds sdk tool_block of
             Inl e \<Rightarrow> (c, Some e)
           | Inr fds \<Rightarrow> tool_blocks sdk rest (c\<lparr>tools := Some [Tool fds]\<rparr>)))"

definition parse_tools :: "sdk \<Rightarrow> json \<Rightarrow> config_args \<Rightarrow> exc_class + config_args" where
  "parse_tools sdk setup_config c =
     (case py_in ''tools'' setup_config of
        Inl e \<Rightarrow> Inl e
      | Inr False \<Rightarrow> Inr c
      | Inr True \<Rightarrow>
          (case py_getitem setup_config ''tools'' of
             Inl e \<Rightarrow> Inr c
           | Inr tool_config \<Rightarrow>
               (case tool_config of
                  JArr blocks \<Rightarrow> Inr (fst (tool_blocks sdk blocks c))
                | _ \<Rightarrow> Inr c)))"

text \<open>Context window compression: no \<^verbatim>\<open>try\<close> around this block.\<close>

definition parse_context_window_compression :: "json \<Rightarrow> config_args \<Rightarrow> exc_class + config_args" where
  "parse_context_window_compression setup_config c =
     (case py_in ''contextWindowCompression'' setup_config of
        Inl e \<Rightarrow> Inl e
      | Inr False \<Rightarrow> Inr c
      | Inr True \<Rightarrow>
          and_then (py_getitem setup_config ''contextWindowCompression'') (\<lambda>cwc.
          and_then (py_in ''slidingWindow'' cwc) (\<lambda>b.
          Inr (if b then c\<lparr>context_window_compression := True\<rparr> else c))))"

definition parse_audio_transcription :: "json \<Rightarrow> config_args \<Rightarrow> exc_class + config_args" where
  "parse_audio_transcription setup_config c =
     and_then (py_in ''outputAudioTranscription'' setup_config) (\<lambda>out.
     and_then (py_in ''inputAudioTranscription'' setup_config) (\<lambda>inp.
     Inr ((if inp then (\<lambda>c. c\<lparr>input_audio_transcription := True\<rparr>) else (\<lambda>c. c))
            (if out then c\<lparr>output_audio_transcription := True\<rparr> else c))))"

text \<open>Speech configuration. The body of its \<^verbatim>\<open>try\<close>, then the \<^verbatim>\<open>except (KeyError, TypeError)\<close>.\<close>

definition voice_name_of :: "sdk \<Rightarrow> json \<Rightarrow> exc_class + json" where
  "voice_name_of sdk setup_config =
     and_then (py_getitem setup_config ''speechConfig'') (\<lambda>sc.
     and_then (py_getitem sc ''voiceConfig'') (\<lambda>vc.
     and_then (py_getitem vc ''prebuiltVoiceConfig'') (\<lambda>pvc.
     and_then (py_getitem pvc ''voiceName'') (\<lambda>voice_name.
     (case sdk (C_PrebuiltVoiceConfig voice_name) of Some e \<Rightarrow> Inl e | None \<Rightarrow> Inr voice_name)))))"

definition parse_speech_config :: "sdk \<Rightarrow> json \<Rightarrow> config_args \<Rightarrow> exc_class + config_args" where
  "parse_speech_config sdk setup_config c =
     (case py_in ''speechConfig'' setup_config of
        Inl e \<Rightarrow> Inl e
      | Inr False \<Rightarrow> Inr c
      | Inr True \<Rightarrow>
          (case voice_name_of sdk setup_config of
             Inl e \<Rightarrow> if e = KeyError \<or> e = TypeError then Inr c else Inl e
           | Inr v \<Rightarrow> Inr (c\<lparr>speech_config := Some v\<rparr>)))"

text \<open>
  The whole translation. \<open>Inl e\<close>: the exception \<open>e\<close> leaves \<^verbatim>\<open>start_session\<close> before the
  upstream connection is opened. \<^verbatim>\<open>None\<close> (no setup object) is \<open>JNull\<close>.
\<close>

definition start_session_config :: "sdk \<Rightarrow> json \<Rightarrow> exc_class + config_args" where
  "start_session_config sdk setup_config =
     (if truthy setup_config then
        and_then (parse_response_modalities sdk setup_config default_config_args) (\<lambda>c.
        and_then (parse_system_instruction sdk setup_config c) (\<lambda>c.
        and_then (parse_tools sdk setup_config c) (\<lambda>c.
        and_then (parse_context_window_compression setup_config c) (\<lambda>c.
        and_then (parse_audio_transcription setup_config c) (\<lambda>c.
        parse_speech_config sdk setup_config c)))))
      else Inr default_config_args)"

section \<open>The upstream receive pump\<close>

text \<open>
  The messages of the upstream session, as \<^verbatim>\<open>receive_loop\<close> (gemini_live.py) reads them.
  The classes belong to the SDK; every attribute the code tests for presence is an option,
  and so are the two lists it iterates (the SDK declares them optional).
\<close>

datatype blob = Blob (blob_data: "bytes option")

datatype part = Part (inline_data: "blob option")

datatype content = Content (parts: "part list option")

datatype transcription = Transcription (transcription_text: "string option")

datatype function_call =
  FunctionCall (fc_name: "string option") (fc_args: "json option") (fc_id: "string option")

datatype live_server_tool_call = LiveServerToolCall (function_calls: "function_call list option")

datatype live_server_content =
  LiveServerContent
    (model_turn: "content option")
    (input_transcription: "transcription option")
    (output_transcription: "transcription option")
    (turn_complete: "bool option")
    (interrupted: "bool option")

datatype live_server_message =
  LiveServerMessage (server_content: "live_server_content option") (tool_call: "live_server_tool_call option")

text \<open>
  The events \<^verbatim>\<open>start_session\<close> puts on its event queue, as its docstring lists them: raw
  audio, setup complete, an error with its text, \<^verbatim>\<open>None\<close> for the end of the session, and
  any other dict, which is forwarded to the client as JSON.
\<close>

datatype event =
    AudioEvent "bytes option"
  | SetupCompleteEvent
  | ErrorEvent string
  | JsonEvent json
  | EndEvent

definition opt_str :: "string option \<Rightarrow> json" where
  "opt_str s = (case s of None \<Rightarrow> JNull | Some t \<Rightarrow> JStr t)"

definition input_transcription_event :: "transcription \<Rightarrow> event" where
  "input_transcription_event t =
     JsonEvent (JObj [(''serverContent'',
       JObj [(''inputTranscription'', JObj [(''text'', opt_str (transcription_text t))])])])"

definition output_transcription_event :: "transcription \<Rightarrow> event" where
  "output_transcription_event t =
     JsonEvent (JObj [(''serverContent'',
       JObj [(''outputTranscription'', JObj [(''text'', opt_str (transcription_text t))])])])"

definition turn_complete_event :: event where
  "turn_complete_event = JsonEvent (JObj [(''serverContent'', JObj [(''turnComplete'', JBool True)])])"

definition interrupted_event :: event where
  "interrupted_event = JsonEvent (JObj [(''serverContent'', JObj [(''interrupted'', JBool True)])])"

definition client_tool_call :: "function_call \<Rightarrow> json" where
  "client_tool_call fc =
     JObj [(''name'', opt_str (fc_name fc)),
           (''args'', (case fc_args fc of None \<Rightarrow> JObj [] | Some a \<Rightarrow> if truthy a then a else JObj [])),
           (''id'', opt_str (fc_id fc))]"

definition tool_call_event :: "function_call list \<Rightarrow> event" where
  "tool_call_event fcs =
     JsonEvent (JObj [(''toolCall'', JObj [(''functionCalls'', JArr (map client_tool_call fcs))])])"

definition none_not_iterable :: exn where
  "none_not_iterable = Exn TypeError '''NoneType' object is not iterable''"

text \<open>The loop over the parts of the model turn: one audio event per part with inline data.\<close>

fun put_audio_parts :: "part list \<Rightarrow> event list \<Rightarrow> event list" where
  "put_audio_parts [] q = q"
| "put_audio_parts (p # ps) q =
     put_audio_parts ps (case inline_data p of None \<Rightarrow> q | Some b \<Rightarrow> q @ [AudioEvent (blob_data b)])"

text \<open>
  The body of the \<^verbatim>\<open>async for\<close> on one message: the event queue after it, and the exception
  that interrupted it, if any. The queue is unbounded, so a put never fails.
\<close>

definition on_server_content :: "live_server_content \<Rightarrow> event list \<Rightarrow> event list \<times> exn option" where
  "on_server_content sc q =
     (case (case model_turn sc of
              None \<Rightarrow> Inr q
            | Some mt \<Rightarrow> (case parts mt of None \<Rightarrow> Inl q | Some ps \<Rightarrow> Inr (put_audio_parts ps q))) of
        Inl q1 \<Rightarrow> (q1, Some none_not_iterable)
      | Inr q1 \<Rightarrow>
          let q2 = (case input_transcription sc of None \<Rightarrow> q1 | Some t \<Rightarrow> q1 @ [input_transcription_event t]);
              q3 = (case output_transcription sc of None \<Rightarrow> q2 | Some t \<Rightarrow> q2 @ [output_transcription_event t]);
              q4 = (if turn_complete sc = Some True then q3 @ [turn_complete_event] else q3);
              q5 = (if interrupted sc = Some True then q4 @ [interrupted_event] else q4)
          in (q5, None))"

definition on_response :: "live_server_message \<Rightarrow> event list \<Rightarrow> event list \<times> exn option" where
  "on_response response q =
     (case (case server_content response of None \<Rightarrow> (q, None) | Some sc \<Rightarrow> on_server_content sc q) of
        (q1, Some e) \<Rightarrow> (q1, Some e)
      | (q1, None) \<Rightarrow>
          (case tool_call response of
             None \<Rightarrow> (q1, None)
           | Some tc \<Rightarrow>
               (case function_calls tc of
                  None \<Rightarrow> (q1, Some none_not_iterable)
                | Some fcs \<Rightarrow> (q1 @ [tool_call_event fcs], None))))"








text \<open>
  One call of \<^verbatim>\<open>session.receive()\<close> yields some messages and then ends: the iterator is
  exhausted, or it raises an exception, or the task is cancelled while it waits. The
  upstream is a script of such calls; past the end of the script the next call yields
  nothing and the pump waits.
\<close>

datatype stream_end = Exhausted | Raises exn | Cancelled

type_synonym stream = "live_server_message list \<times> stream_end"

fun receive_messages :: "live_server_message list \<Rightarrow> event list \<Rightarrow> event list \<times> exn option" where
  "receive_messages [] q = (q, None)"
| "receive_messages (r # rs) q =
     (case on_response r q of
        (q1, Some e) \<Rightarrow> (q1, Some e)
      | (q1, None) \<Rightarrow> receive_messages rs q1)"

text \<open>
  \<^verbatim>\<open>receive_loop\<close>: \<^verbatim>\<open>while True\<close> around the \<^verbatim>\<open>async for\<close>, inside
  \<^verbatim>\<open>try ... except Exception ... finally\<close>. The result holds the event queue, the number
  of calls of \<^verbatim>\<open>session.receive()\<close> made, and whether the task has ended.
\<close>

record pump =
  events :: "event list"
  opened :: nat
  stopped :: bool

definition on_exception :: "event list \<Rightarrow> exn \<Rightarrow> nat \<Rightarrow> pump" where
  "on_exception q e n = \<lparr> events = q @ [ErrorEvent (exn_str e)] @ [EndEvent], opened = n, stopped = True \<rparr>"

fun receive_loop :: "stream list \<Rightarrow> nat \<Rightarrow> event list \<Rightarrow> pump" where
  "receive_loop [] n q = \<lparr> events = q, opened = Suc n, stopped = False \<rparr>"
| "receive_loop ((rs, fin) # rest) n q =
     (case receive_messages rs q of
        (q1, Some e) \<Rightarrow> on_exception q1 e (Suc n)
      | (q1, None) \<Rightarrow>
          (case fin of
             Exhausted \<Rightarrow> receive_loop rest (Suc n) q1
           | Raises e \<Rightarrow> on_exception q1 e (Suc n)
           | Cancelled \<Rightarrow> \<lparr> events = q1 @ [EndEvent], opened = Suc n, stopped = True \<rparr>))"

fun is_terminal :: "event \<Rightarrow> bool" where
  "is_terminal (ErrorEvent m) = True"
| "is_terminal EndEvent = True"
| "is_terminal _ = False"

text \<open>A call of \<^verbatim>\<open>session.receive()\<close> that ends by exhaustion, every message handled.\<close>

definition clean :: "stream \<Rightarrow> bool" where
  "clean s = (snd s = Exhausted \<and> snd (receive_messages (fst s) []) = None)"

section \<open>The connection gate\<close>

text \<open>
  \<^verbatim>\<open>verify_ws_token\<close> (auth.py). Of the request it reads the \<^verbatim>\<open>token\<close> query parameter and
  the \<^verbatim>\<open>authorization\<close> header. \<^verbatim>\<open>verify_firebase_token\<close> checks a signature with a
  cryptographic library and certificates fetched over the network; it is a parameter, with
  the exception it raises (and its text) as \<open>Inl\<close>.
\<close>

record websocket =
  query_token :: "string option"
  authorization :: "string option"

definition lower_char :: "char \<Rightarrow> char" where
  "lower_char c =
     (case map_of (zip ''ABCDEFGHIJKLMNOPQRSTUVWXYZ'' ''abcdefghijklmnopqrstuvwxyz'') c of
        None \<Rightarrow> c
      | Some d \<Rightarrow> d)"

definition no_token :: "string option \<Rightarrow> bool" where
  "no_token token = (case token of None \<Rightarrow> True | Some t \<Rightarrow> t = [])"

definition verify_ws_token :: "(string \<Rightarrow> exn + json) \<Rightarrow> websocket \<Rightarrow> exn + json" where
  "verify_ws_token verify_firebase_token websocket =
     (let token = query_token websocket;
          token =
            (if no_token token then
               (let auth_header = (case authorization websocket of None \<Rightarrow> [] | Some h \<Rightarrow> h)
                in if prefix ''bearer '' (map lower_char auth_header) then Some (drop 7 auth_header)
                   else token)
             else token)
      in (case token of
            None \<Rightarrow> Inl (Exn ValueError ''Missing auth token'')
          | Some t \<Rightarrow>
              if t = [] then Inl (Exn ValueError ''Missing auth token'')
              else verify_firebase_token t))"

text \<open>
  The setup handshake of \<^verbatim>\<open>websocket_endpoint\<close> (main.py). Its input is what
  \<^verbatim>\<open>wait_for(websocket.receive_text(), timeout=15)\<close> and \<^verbatim>\<open>json.loads\<close> give: an exception
  of the wait (\<open>TimeoutError\<close> when no frame came in time), or a text with the result of
  parsing it.
\<close>

datatype setup_frame = NoText exc_class | Text "exc_class + json"

datatype handshake = CloseSetup nat string | Proceed json

definition on_setup_error :: "exc_class \<Rightarrow> handshake" where
  "on_setup_error e =
     (if e = TimeoutError then CloseSetup 4000 ''Setup timeout'' else CloseSetup 4000 ''Invalid setup'')"

definition setup_handshake :: "setup_frame \<Rightarrow> handshake" where
  "setup_handshake frame =
     (case frame of
        NoText e \<Rightarrow> on_setup_error e
      | Text loaded \<Rightarrow>
          (case loaded of
             Inl e \<Rightarrow> on_setup_error e
           | Inr data \<Rightarrow>
               (case py_in ''setup'' data of
                  Inl e \<Rightarrow> on_setup_error e
                | Inr False \<Rightarrow> Proceed JNull
                | Inr True \<Rightarrow>
                    (case py_getitem data ''setup'' of
                       Inl e \<Rightarrow> on_setup_error e
                     | Inr setup_config \<Rightarrow> Proceed setup_config))))"

section \<open>The session and its supervisor\<close>

text \<open>
  What one connection does is a trace: the calls made on the client transport, the queues
  and tasks created, the tasks cancelled, the upstream connection opened and closed, in
  program order. \<open>Close\<close> carries the close code and reason (\<^verbatim>\<open>websocket.close()\<close> is code
  1000 with no reason). An action records that the call was made; whether a write failed is
  an input of the model.
\<close>

datatype task = ReceiveFromClient | SendAudioTask | SendTextTask | ReceiveLoopTask

datatype queue = AudioInputQueue | TextInputQueue | EventQueue

datatype action =
    Accept
  | Close nat string
  | ReceiveText
  | NewQueue queue
  | CreateTask task
  | CancelTask task
  | Connect config_args
  | Disconnect
  | Put event
  | SendBytes "bytes option"
  | SendJson json

datatype outcome = Completed | TimedOut | Raised exc_class

datatype connection = Connected | ConnectRaises exc_class | ConnectTimesOut

text \<open>
  Everything outside the program that one connection depends on: the request, the token
  verifier, the first frame, the upstream connection attempt (\<open>ConnectTimesOut\<close>: the session
  time limit passes while it is pending), the upstream script, the number of events
  forwarded to the client when the time limit passes (\<open>None\<close>: not before the event queue
  runs dry), and the failures of the writes on the client transport.
\<close>

record world =
  ws :: websocket
  verify_firebase_token :: "string \<Rightarrow> exn + json"
  first_frame :: setup_frame
  connection :: connection
  upstream :: "stream list"
  deadline :: "nat option"
  write_error :: "nat \<Rightarrow> exc_class option"
  notice_error :: "exc_class option"
  close_error :: "exc_class option"

text \<open>
  \<^verbatim>\<open>run_session\<close> (main.py), the write it makes for one event; none for \<^verbatim>\<open>None\<close>, which
  ends the loop.
\<close>

definition setup_complete_json :: json where
  "setup_complete_json = JObj [(''setupComplete'', JBool True)]"

fun write_of :: "event \<Rightarrow> action option" where
  "write_of (AudioEvent d) = Some (SendBytes d)"
| "write_of SetupCompleteEvent = Some (SendJson setup_complete_json)"
| "write_of (ErrorEvent m) = Some (SendJson (JObj [(''error'', JStr m)]))"
| "write_of (JsonEvent j) = Some (SendJson j)"
| "write_of EndEvent = None"

text \<open>
  The loop of \<^verbatim>\<open>start_session\<close> over its event queue together with the loop of
  \<^verbatim>\<open>run_session\<close> over what it yields: events are taken in queue order; \<^verbatim>\<open>None\<close> ends both
  loops; a failed write raises out of \<^verbatim>\<open>run_session\<close>; an empty queue blocks until the
  time limit passes. \<open>n\<close> counts the events taken so far.
\<close>

fun egress :: "(nat \<Rightarrow> exc_class option) \<Rightarrow> nat option \<Rightarrow> nat \<Rightarrow> event list \<Rightarrow> action list \<times> outcome" where
  "egress wr dl n [] = ([], TimedOut)"
| "egress wr dl n (ev # evs) =
     (if dl = Some n then ([], TimedOut)
      else
        (case write_of ev of
           None \<Rightarrow> ([], Completed)
         | Some a \<Rightarrow>
             (case wr n of
                Some e \<Rightarrow> ([a], Raised e)
              | None \<Rightarrow> (case egress wr dl (Suc n) evs of (acts, out) \<Rightarrow> (a # acts, out)))))"

text \<open>
  \<^verbatim>\<open>start_session\<close> after the configuration is built: the upstream connection, the event
  queue with the setup-complete event, the three pump tasks, the event loop, and the
  \<^verbatim>\<open>finally\<close> that cancels the three tasks when the generator is left, followed by the exit
  of the \<^verbatim>\<open>async with\<close>. The generator is left by \<^verbatim>\<open>None\<close>, by the cancellation that
  \<^verbatim>\<open>wait_for\<close> delivers while it waits on the queue, or, when \<^verbatim>\<open>run_session\<close> is left
  during a write, by the event loop closing the abandoned generator. The trace lists the
  clean-up where the session ends; for an abandoned generator the event loop may run it
  after the supervisor's own clean-up.
\<close>

definition session_startup :: "action list" where
  "session_startup =
     [NewQueue EventQueue, Put SetupCompleteEvent,
      CreateTask SendAudioTask, CreateTask SendTextTask, CreateTask ReceiveLoopTask]"

definition session_cleanup :: "action list" where
  "session_cleanup =
     [CancelTask SendAudioTask, CancelTask SendTextTask, CancelTask ReceiveLoopTask, Disconnect]"

definition event_queue :: "world \<Rightarrow> event list" where
  "event_queue w = events (receive_loop (upstream w) 0 [SetupCompleteEvent])"

definition run_session :: "sdk \<Rightarrow> world \<Rightarrow> json \<Rightarrow> action list \<times> outcome" where
  "run_session sdk w setup_config =
     (case start_session_config sdk setup_config of
        Inl e \<Rightarrow> ([], Raised e)
      | Inr config \<Rightarrow>
          (case connection w of
             ConnectRaises e \<Rightarrow> ([Connect config], Raised e)
           | ConnectTimesOut \<Rightarrow> ([Connect config], TimedOut)
           | Connected \<Rightarrow>
               (case egress (write_error w) (deadline w) 0 (event_queue w) of
                  (writes, out) \<Rightarrow>
                    (Connect config # session_startup @ writes @ session_cleanup, out))))"

text \<open>
  The \<^verbatim>\<open>try ... except ... finally\<close> around \<^verbatim>\<open>wait_for(run_session(), ...)\<close>. \<open>swallow\<close> is
  \<^verbatim>\<open>try: ... except Exception: pass\<close> around one call.
\<close>

definition time_limit_notice :: json where
  "time_limit_notice = JObj [(''error'', JStr ''Session time limit reached'')]"

definition swallow :: "exc_class option \<Rightarrow> exc_class option" where
  "swallow r = (case r of None \<Rightarrow> None | Some e \<Rightarrow> None)"

record result =
  trace :: "action list"
  uncaught :: "exc_class option"

definition on_time_limit :: "world \<Rightarrow> action list \<times> exc_class option" where
  "on_time_limit w = ([SendJson time_limit_notice], swallow (notice_error w))"

definition supervise :: "world \<Rightarrow> action list \<times> outcome \<Rightarrow> result" where
  "supervise w run =
     (case run of
        (acts, out) \<Rightarrow>
          (case (case out of
                   Completed \<Rightarrow> ([], None)
                 | TimedOut \<Rightarrow> on_time_limit w
                 | Raised e \<Rightarrow> if e = TimeoutError then on_time_limit w else ([], None)) of
             (handler, err) \<Rightarrow>
               \<lparr> trace = acts @ handler @ [CancelTask ReceiveFromClient, Close 1000 []],
                 uncaught = (case swallow (close_error w) of Some e \<Rightarrow> Some e | None \<Rightarrow> err) \<rparr>))"

definition websocket_endpoint :: "sdk \<Rightarrow> world \<Rightarrow> result" where
  "websocket_endpoint sdk w =
     (case verify_ws_token (verify_firebase_token w) (ws w) of
        Inl e \<Rightarrow>
          if is_ValueError (exn_class e) then
            \<lparr> trace = [Accept, Close 4001 (''Auth failed: '' @ exn_str e)], uncaught = None \<rparr>
          else \<lparr> trace = [], uncaught = Some (exn_class e) \<rparr>
      | Inr claims \<Rightarrow>
          (case py_get claims ''sub'' (JStr ''unknown'') of
             Inl e \<Rightarrow> \<lparr> trace = [], uncaught = Some e \<rparr>
           | Inr uid \<Rightarrow>
               (case setup_handshake (first_frame w) of
                  CloseSetup code reason \<Rightarrow>
                    \<lparr> trace = [Accept, ReceiveText, Close code reason], uncaught = None \<rparr>
                | Proceed setup_config \<Rightarrow>
                    (let r = supervise w (run_session sdk w setup_config)
                     in r\<lparr>trace :=
                          [Accept, ReceiveText, NewQueue AudioInputQueue, NewQueue TextInputQueue,
                           CreateTask ReceiveFromClient] @ trace r\<rparr>))))"

text \<open>Readings of a trace.\<close>

fun starts_session :: "action \<Rightarrow> bool" where
  "starts_session (NewQueue q) = True"
| "starts_session (CreateTask t) = True"
| "starts_session (Connect c) = True"
| "starts_session _ = False"

fun is_write :: "action \<Rightarrow> bool" where
  "is_write (SendBytes d) = True"
| "is_write (SendJson j) = True"
| "is_write _ = False"

fun track :: "task list \<Rightarrow> action \<Rightarrow> task list" where
  "track ts (CreateTask t) = t # ts"
| "track ts (CancelTask t) = removeAll t ts"
| "track ts _ = ts"

definition live_tasks :: "action list \<Rightarrow> task list" where
  "live_tasks tr = foldl track [] tr"

section \<open>What the spec says, in the terms of the model\<close>

text \<open>
  A call of \<^verbatim>\<open>session.receive()\<close> fails with \<open>e\<close> when handling one of its messages raises
  \<open>e\<close>, or every message is handled and the iterator raises \<open>e\<close>.
\<close>

definition fails :: "stream \<Rightarrow> exn \<Rightarrow> bool" where
  "fails s e =
     (snd (receive_messages (fst s) []) = Some e \<or>
      snd (receive_messages (fst s) []) = None \<and> snd s = Raises e)"








text \<open>
  The first frames that end the handshake: no text frame in time, a text that is not JSON,
  or a JSON value on which the lookup of \<^verbatim>\<open>setup\<close> raises (a number, a boolean,
  \<^verbatim>\<open>null\<close>, and a list or a string that contains \<^verbatim>\<open>"setup"\<close>). \<open>setup_of\<close> is the setup
  object of any other frame, \<open>JNull\<close> when it has none.
\<close>

definition refused :: "setup_frame \<Rightarrow> bool" where
  "refused frame =
     (case frame of
        NoText e \<Rightarrow> True
      | Text loaded \<Rightarrow>
          (case loaded of
             Inl e \<Rightarrow> True
           | Inr data \<Rightarrow>
               (case data of
                  JObj kvs \<Rightarrow> False
                | JArr xs \<Rightarrow> JStr ''setup'' \<in> set xs
                | JStr s \<Rightarrow> str_contains ''setup'' s
                | _ \<Rightarrow> True)))"

definition setup_of :: "setup_frame \<Rightarrow> json" where
  "setup_of frame =
     (case frame of
        Text (Inr (JObj kvs)) \<Rightarrow> (case map_of kvs ''setup'' of None \<Rightarrow> JNull | Some s \<Rightarrow> s)
      | _ \<Rightarrow> JNull)"

text \<open>The start of every trace that gets past the handshake, and the worlds that get that far.\<close>

definition session_prologue :: "action list" where
  "session_prologue =
     [Accept, ReceiveText, NewQueue AudioInputQueue, NewQueue TextInputQueue, CreateTask ReceiveFromClient]"

definition authenticated :: "world \<Rightarrow> bool" where
  "authenticated w =
     (case verify_ws_token (verify_firebase_token w) (ws w) of Inl e \<Rightarrow> False | Inr claims \<Rightarrow> is_dict claims)"

fun creates_task :: "action \<Rightarrow> bool" where
  "creates_task (CreateTask t) = True"
| "creates_task _ = False"

definition before_setup_complete :: "action list \<Rightarrow> action list" where
  "before_setup_complete acts = takeWhile (\<lambda>a. a \<noteq> Put SetupCompleteEvent) acts"

section \<open>Example inputs\<close>

text \<open>
  A connection with a valid token whose first frame is \<^verbatim>\<open>{}\<close>, an upstream that stays
  silent, and a client transport that never fails.
\<close>

definition example_world :: world where
  "example_world =
     \<lparr> ws = \<lparr> query_token = Some ''token'', authorization = None \<rparr>,
       verify_firebase_token = (\<lambda>t. Inr (JObj [(''sub'', JStr ''user-1'')])),
       first_frame = Text (Inr (JObj [])),
       connection = Connected,
       upstream = [],
       deadline = None,
       write_error = (\<lambda>n. None),
       notice_error = None,
       close_error = None \<rparr>"




section \<open>Properties of the control-forward pump\<close>

lemma function_responses_acc:
  "function_responses sdk rs acc = Inr out \<Longrightarrow>
     \<exists>new. out = acc @ new \<and> list_all2 sent_for rs new"
proof (induction rs arbitrary: acc)
  case Nil
  then show ?case by simp
next
  case (Cons r rs)
  from Cons.prems obtain kvs where r: "r = JObj kvs"
    by (cases r) auto
  define n where "n = (case map_of kvs ''name'' of None \<Rightarrow> JNull | Some v \<Rightarrow> v)"
  define i where "i = (case map_of kvs ''id'' of None \<Rightarrow> JNull | Some v \<Rightarrow> v)"
  define p where "p = (case map_of kvs ''response'' of None \<Rightarrow> ok_marker | Some v \<Rightarrow> v)"
  from Cons.prems r have rest: "function_responses sdk rs (acc @ [FunctionResponse n i p]) = Inr out"
    by (auto simp: n_def i_def p_def split: option.splits)
  from Cons.IH [OF rest] obtain new where
    new: "out = (acc @ [FunctionResponse n i p]) @ new" "list_all2 sent_for rs new"
    by blast
  have "sent_for r (FunctionResponse n i p)"
    by (simp add: sent_for_def r n_def i_def p_def ok_marker_def split: option.splits)
  with new show ?case
    by (intro exI [of _ "FunctionResponse n i p # new"]) simp
qed

text \<open>
  Claim C7. A tool response whose \<^verbatim>\<open>functionResponses\<close> is a single JSON object is forwarded
  exactly as the one-element list holding that object: the client's frame leads to the same
  upstream call (or the same failure) through ingress and the control-forward pump, and so
  does the queued message in \<^verbatim>\<open>send_text\<close> alone. This holds whatever the SDK accepts.
\<close>

theorem single_object_as_one_element_list:
  "control_forward sdk (tool_response_frame (JObj kvs)) =
     control_forward sdk (tool_response_frame (JArr [JObj kvs])) \<and>
   send_text sdk (tool_response_msg (JObj kvs)) =
     send_text sdk (tool_response_msg (JArr [JObj kvs]))"
  by (simp add: control_forward_def tool_response_frame_def on_text_payload_def send_text_def
      tool_response_msg_def)

theorem single_object_as_one_element_list_witness:
  "control_forward (\<lambda>c. None) (tool_response_frame (JObj [(''name'', JStr ''f''), (''id'', JStr ''1'')])) =
     Forwarded [SendToolResponse [FunctionResponse (JStr ''f'') (JStr ''1'') (JObj [(''result'', JStr ''ok'')])]]"
proof -
  have "control_forward (\<lambda>c. None) (tool_response_frame (JArr [JObj [(''name'', JStr ''f''), (''id'', JStr ''1'')]])) =
     Forwarded [SendToolResponse [FunctionResponse (JStr ''f'') (JStr ''1'') (JObj [(''result'', JStr ''ok'')])]]"
    by (simp add: control_forward_def tool_response_frame_def on_text_payload_def send_text_def
        tool_response_msg_def ok_marker_def)
  with single_object_as_one_element_list [of "\<lambda>c. None" "[(''name'', JStr ''f''), (''id'', JStr ''1'')]"]
  show ?thesis
    by simp
qed

text \<open>
  Claim C8. When \<^verbatim>\<open>send_text\<close> forwards a tool response with the records \<open>rs\<close>, it makes one
  upstream call with one function-result record per record of \<open>rs\<close>, in order; each record
  of \<open>rs\<close> is an object; where the object has no \<^verbatim>\<open>response\<close> key the record sent carries
  \<^verbatim>\<open>{"result": "ok"}\<close>, and where it has the key the record sent carries its value unchanged.
\<close>

theorem absent_response_defaults_to_ok:
  assumes "send_text sdk (tool_response_msg (JArr rs)) = Inr calls"
  shows "\<exists>out. calls = [SendToolResponse out] \<and> length out = length rs \<and>
           (\<forall>i<length rs. \<exists>kvs. rs ! i = JObj kvs \<and>
               (map_of kvs ''response'' = None \<longrightarrow> fr_response (out ! i) = JObj [(''result'', JStr ''ok'')]) \<and>
               (\<forall>v. map_of kvs ''response'' = Some v \<longrightarrow> fr_response (out ! i) = v))"
proof -
  from assms obtain out where out: "function_responses sdk rs [] = Inr out" "calls = [SendToolResponse out]"
    by (auto simp: send_text_def tool_response_msg_def split: sum.splits)
  from function_responses_acc [OF out(1)] have l: "list_all2 sent_for rs out"
    by simp
  have "\<exists>kvs. rs ! i = JObj kvs \<and>
               (map_of kvs ''response'' = None \<longrightarrow> fr_response (out ! i) = JObj [(''result'', JStr ''ok'')]) \<and>
               (\<forall>v. map_of kvs ''response'' = Some v \<longrightarrow> fr_response (out ! i) = v)" if "i < length rs" for i
  proof -
    from l that have "sent_for (rs ! i) (out ! i)"
      by (simp add: list_all2_conv_all_nth)
    then show ?thesis
      by (cases "rs ! i") (auto simp: sent_for_def)
  qed
  with l out(2) show ?thesis
    by (auto simp: list_all2_lengthD)
qed

theorem absent_response_defaults_to_ok_witness:
  "send_text (\<lambda>c. None)
     (tool_response_msg (JArr [JObj [(''name'', JStr ''f''), (''response'', JInt 1)], JObj [(''name'', JStr ''g'')]])) =
     Inr [SendToolResponse [FunctionResponse (JStr ''f'') JNull (JInt 1),
                            FunctionResponse (JStr ''g'') JNull (JObj [(''result'', JStr ''ok'')])]] \<and>
   (\<exists>out. [SendToolResponse [FunctionResponse (JStr ''f'') JNull (JInt 1),
                            FunctionResponse (JStr ''g'') JNull (JObj [(''result'', JStr ''ok'')])]] =
            [SendToolResponse out] \<and>
          fr_response (out ! 0) = JInt 1 \<and>
          fr_response (out ! 1) = JObj [(''result'', JStr ''ok'')])"
proof -
  let ?rs = "[JObj [(''name'', JStr ''f''), (''response'', JInt 1)], JObj [(''name'', JStr ''g'')]]"
  let ?calls = "[SendToolResponse [FunctionResponse (JStr ''f'') JNull (JInt 1),
                            FunctionResponse (JStr ''g'') JNull (JObj [(''result'', JStr ''ok'')])]]"
  have sent: "send_text (\<lambda>c. None) (tool_response_msg (JArr ?rs)) = Inr ?calls"
    by (simp add: send_text_def tool_response_msg_def ok_marker_def)
  from absent_response_defaults_to_ok [OF sent] obtain out where
    out: "?calls = [SendToolResponse out]"
    and each: "\<forall>i<length ?rs. \<exists>kvs. ?rs ! i = JObj kvs \<and>
               (map_of kvs ''response'' = None \<longrightarrow> fr_response (out ! i) = JObj [(''result'', JStr ''ok'')]) \<and>
               (\<forall>v. map_of kvs ''response'' = Some v \<longrightarrow> fr_response (out ! i) = v)"
    by blast
  have "\<exists>kvs. ?rs ! 0 = JObj kvs \<and>
               (map_of kvs ''response'' = None \<longrightarrow> fr_response (out ! 0) = JObj [(''result'', JStr ''ok'')]) \<and>
               (\<forall>v. map_of kvs ''response'' = Some v \<longrightarrow> fr_response (out ! 0) = v)"
    using each [THEN spec, of 0] by simp
  then have r0: "fr_response (out ! 0) = JInt 1"
    by auto
  have "\<exists>kvs. ?rs ! 1 = JObj kvs \<and>
               (map_of kvs ''response'' = None \<longrightarrow> fr_response (out ! 1) = JObj [(''result'', JStr ''ok'')]) \<and>
               (\<forall>v. map_of kvs ''response'' = Some v \<longrightarrow> fr_response (out ! 1) = v)"
    using each [THEN spec, of 1] by simp
  then have r1: "fr_response (out ! 1) = JObj [(''result'', JStr ''ok'')]"
    by auto
  from sent out r0 r1 show ?thesis
    by blast
qed

section \<open>Properties of the session configuration\<close>

text \<open>
  Claim C1. The claim says that no setup object makes the translation raise. The blocks
  for the tools, the speech configuration and the object form of the system instruction
  catch the exceptions of a malformed field; the blocks for \<^verbatim>\<open>responseModalities\<close> and
  \<^verbatim>\<open>contextWindowCompression\<close> have no \<^verbatim>\<open>try\<close>. On the setup object
  \<^verbatim>\<open>{"responseModalities": 5}\<close> the list comprehension iterates an integer: a
  \<^verbatim>\<open>TypeError\<close> leaves \<^verbatim>\<open>start_session\<close>, whatever the SDK accepts, and the session ends
  before the upstream connection is opened. \<^verbatim>\<open>{"contextWindowCompression": null}\<close> does the
  same at the test for \<^verbatim>\<open>slidingWindow\<close>.
\<close>

theorem malformed_response_modalities_raise:
  "start_session_config sdk (JObj [(''responseModalities'', JInt 5)]) = Inl TypeError \<and>
   start_session_config sdk (JObj [(''contextWindowCompression'', JNull)]) = Inl TypeError \<and>
   run_session sdk w (JObj [(''responseModalities'', JInt 5)]) = ([], Raised TypeError)"
  by (simp add: run_session_def start_session_config_def parse_response_modalities_def and_then_def
      parse_system_instruction_def parse_tools_def parse_context_window_compression_def)













section \<open>Properties of the upstream receive pump\<close>

lemma put_audio_parts_append:
  "put_audio_parts ps q = q @ map (\<lambda>b. AudioEvent (blob_data b)) (List.map_filter inline_data ps)"
  by (induction ps arbitrary: q) (auto simp: List.map_filter_simps split: option.splits)





lemma on_response_emits:
  "\<exists>evs. fst (on_response r q) = q @ evs \<and> \<not> list_ex is_terminal evs \<and>
         on_response r [] = (evs, snd (on_response r q))"
proof -
  have nt: "\<not> list_ex is_terminal (map (\<lambda>b. AudioEvent (blob_data b)) xs)" for xs
    by (induction xs) auto
  show ?thesis
    using nt
    by (auto simp: on_response_def on_server_content_def put_audio_parts_append Let_def
        input_transcription_event_def output_transcription_event_def turn_complete_event_def
        interrupted_event_def tool_call_event_def
        split: option.splits sum.splits prod.splits if_splits)
qed

lemma receive_messages_emits:
  "\<exists>evs. fst (receive_messages rs q) = q @ evs \<and> \<not> list_ex is_terminal evs \<and>
         receive_messages rs [] = (evs, snd (receive_messages rs q))"
proof (induction rs arbitrary: q)
  case Nil
  then show ?case by simp
next
  case (Cons r rs)
  obtain evs where e1: "fst (on_response r q) = q @ evs" "\<not> list_ex is_terminal evs"
    "on_response r [] = (evs, snd (on_response r q))"
    using on_response_emits by blast
  show ?case
  proof (cases "snd (on_response r q)")
    case (Some e)
    with e1 show ?thesis
      by (cases "on_response r q") auto
  next
    case None
    obtain evs2 where e2: "fst (receive_messages rs (q @ evs)) = (q @ evs) @ evs2"
      "\<not> list_ex is_terminal evs2"
      "receive_messages rs [] = (evs2, snd (receive_messages rs (q @ evs)))"
      using Cons.IH [of "q @ evs"] by blast
    obtain evs3 where e3: "fst (receive_messages rs evs) = evs @ evs3"
      "receive_messages rs [] = (evs3, snd (receive_messages rs evs))"
      using Cons.IH [of evs] by blast
    from e2 e3 have same: "evs3 = evs2" "snd (receive_messages rs evs) = snd (receive_messages rs (q @ evs))"
      by auto
    have l: "receive_messages (r # rs) q = receive_messages rs (q @ evs)"
      using None e1 by (cases "on_response r q") auto
    have l0: "receive_messages (r # rs) [] = receive_messages rs evs"
      using None e1 by auto
    show ?thesis
      using e1 e2 e3 same
      by (intro exI [of _ "evs @ evs2"]) (auto simp: l l0 list_ex_append prod_eq_iff simp del: receive_messages.simps)
  qed
qed

lemma receive_messages_split:
  obtains evs where "receive_messages rs q = (q @ evs, snd (receive_messages rs []))"
    and "\<not> list_ex is_terminal evs"
proof -
  obtain evs where e: "fst (receive_messages rs q) = q @ evs" "\<not> list_ex is_terminal evs"
    "receive_messages rs [] = (evs, snd (receive_messages rs q))"
    using receive_messages_emits by blast
  then have "receive_messages rs q = (q @ evs, snd (receive_messages rs []))"
    by (simp add: prod_eq_iff)
  with e(2) show ?thesis
    using that by blast
qed

lemma receive_loop_clean:
  "list_all clean script \<Longrightarrow>
     \<exists>evs. receive_loop script n q =
              \<lparr> events = q @ evs, opened = Suc (n + length script), stopped = False \<rparr> \<and>
           \<not> list_ex is_terminal evs"
proof (induction script arbitrary: n q)
  case Nil
  then show ?case by simp
next
  case (Cons s script)
  obtain rs fin where s: "s = (rs, fin)"
    by (cases s)
  from Cons.prems have cs: "clean s" and rest: "list_all clean script"
    by simp_all
  from cs s have fin: "fin = Exhausted" and ok: "snd (receive_messages rs []) = None"
    by (simp_all add: clean_def)
  obtain evs where e: "receive_messages rs q = (q @ evs, None)" "\<not> list_ex is_terminal evs"
    using receive_messages_split [of rs q] ok by metis
  obtain evs2 where e2: "receive_loop script (Suc n) (q @ evs) =
      \<lparr> events = (q @ evs) @ evs2, opened = Suc (Suc n + length script), stopped = False \<rparr>"
      "\<not> list_ex is_terminal evs2"
    using Cons.IH [OF rest, of "Suc n" "q @ evs"] by blast
  show ?case
    using e e2
    by (intro exI [of _ "evs @ evs2"]) (simp add: s fin list_ex_append)
qed

lemma receive_loop_fails:
  "list_all clean pre \<Longrightarrow> fails s e \<Longrightarrow>
     \<exists>evs. receive_loop (pre @ s # post) n q =
              \<lparr> events = q @ evs @ [ErrorEvent (exn_str e), EndEvent],
                opened = Suc (n + length pre), stopped = True \<rparr> \<and>
           \<not> list_ex is_terminal evs"
proof (induction pre arbitrary: n q)
  case Nil
  obtain rs fin where s: "s = (rs, fin)"
    by (cases s)
  obtain evs where e: "receive_messages rs q = (q @ evs, snd (receive_messages rs []))"
    "\<not> list_ex is_terminal evs"
    using receive_messages_split [of rs q] by metis
  from Nil.prems(2) s consider
    (handler) "snd (receive_messages rs []) = Some e"
    | (iterator) "snd (receive_messages rs []) = None" "fin = Raises e"
    by (auto simp: fails_def)
  then show ?case
  proof cases
    case handler
    with e show ?thesis
      by (intro exI [of _ evs]) (simp add: s on_exception_def)
  next
    case iterator
    with e show ?thesis
      by (intro exI [of _ evs]) (simp add: s on_exception_def)
  qed
next
  case (Cons p pre)
  obtain rs fin where p: "p = (rs, fin)"
    by (cases p)
  from Cons.prems(1) have cp: "clean p" and rest: "list_all clean pre"
    by simp_all
  from cp p have fin: "fin = Exhausted" and ok: "snd (receive_messages rs []) = None"
    by (simp_all add: clean_def)
  obtain evs where e: "receive_messages rs q = (q @ evs, None)" "\<not> list_ex is_terminal evs"
    using receive_messages_split [of rs q] ok by metis
  obtain evs2 where e2: "receive_loop (pre @ s # post) (Suc n) (q @ evs) =
      \<lparr> events = (q @ evs) @ evs2 @ [ErrorEvent (exn_str e), EndEvent],
        opened = Suc (Suc n + length pre), stopped = True \<rparr>"
      "\<not> list_ex is_terminal evs2"
    using Cons.IH [OF rest Cons.prems(2), of "Suc n" "q @ evs"] by blast
  show ?case
    using e e2
    by (intro exI [of _ "evs @ evs2"]) (simp add: p fin list_ex_append)
qed

lemma receive_loop_extends:
  "\<exists>evs. events (receive_loop script n q) = q @ evs"
proof (induction script arbitrary: n q)
  case Nil
  then show ?case by simp
next
  case (Cons s script)
  obtain rs fin where s: "s = (rs, fin)"
    by (cases s)
  obtain evs where e: "receive_messages rs q = (q @ evs, snd (receive_messages rs []))"
    using receive_messages_split [of rs q] by metis
  obtain evs2 where e2: "events (receive_loop script (Suc n) (q @ evs)) = (q @ evs) @ evs2"
    using Cons.IH [of "Suc n" "q @ evs"] by blast
  show ?case
    using e e2
    by (cases "snd (receive_messages rs [])"; cases fin) (auto simp: s on_exception_def)
qed

text \<open>
  Claim C2, as the code has it. The claim says that a cleanly exhausted upstream stream
  makes the pump emit one terminal session-ended event and stop, and that the pump never
  re-opens the iteration. In the code the \<^verbatim>\<open>async for\<close> stands inside \<^verbatim>\<open>while True\<close>:
  when \<^verbatim>\<open>session.receive()\<close> is exhausted the pump calls it again and emits nothing. At
  the script of one call that yields nothing and ends, the pump has emitted no event, has
  not stopped, and has made its second call.
\<close>

theorem receive_loop_reopens_after_exhaustion:
  "events (receive_loop [([], Exhausted)] 0 []) = [] \<and>
   \<not> stopped (receive_loop [([], Exhausted)] 0 []) \<and>
   opened (receive_loop [([], Exhausted)] 0 []) = 2"
  by simp

text \<open>
  Claim C2, amended. While every call of \<^verbatim>\<open>session.receive()\<close> ends by clean exhaustion,
  the pump emits no terminal event, does not stop, and re-opens the iteration after each
  call. At the first call that fails with an exception \<open>e\<close> (raised by the iterator or
  while a message is handled), the pump emits exactly one error event with the text of
  \<open>e\<close>, immediately followed by the one session-ended sentinel, after events that are not
  terminal; it then stops, and makes no further call.
\<close>

theorem receive_loop_terminal_events:
  "(list_all clean script \<longrightarrow>
      \<not> stopped (receive_loop script 0 []) \<and>
      opened (receive_loop script 0 []) = Suc (length script) \<and>
      \<not> list_ex is_terminal (events (receive_loop script 0 []))) \<and>
   (\<forall>pre s post e. script = pre @ s # post \<and> list_all clean pre \<and> fails s e \<longrightarrow>
      stopped (receive_loop script 0 []) \<and>
      opened (receive_loop script 0 []) = Suc (length pre) \<and>
      (\<exists>evs. events (receive_loop script 0 []) = evs @ [ErrorEvent (exn_str e), EndEvent] \<and>
             \<not> list_ex is_terminal evs))"
proof (intro conjI allI impI)
  assume "list_all clean script"
  from receive_loop_clean [OF this, of 0 "[]"]
  show "\<not> stopped (receive_loop script 0 [])"
    and "opened (receive_loop script 0 []) = Suc (length script)"
    and "\<not> list_ex is_terminal (events (receive_loop script 0 []))"
    by auto
next
  fix pre s post e
  assume a: "script = pre @ s # post \<and> list_all clean pre \<and> fails s e"
  then have "list_all clean pre" "fails s e"
    by simp_all
  from receive_loop_fails [OF this, of post 0 "[]"] a
  show "stopped (receive_loop script 0 [])"
    and "opened (receive_loop script 0 []) = Suc (length pre)"
    and "\<exists>evs. events (receive_loop script 0 []) = evs @ [ErrorEvent (exn_str e), EndEvent] \<and>
             \<not> list_ex is_terminal evs"
    by auto
qed

theorem receive_loop_terminal_events_witness:
  "list_all clean [([], Exhausted)] \<and>
   fails ([], Raises (Exn OtherException ''boom'')) (Exn OtherException ''boom'') \<and>
   stopped (receive_loop [([], Exhausted), ([], Raises (Exn OtherException ''boom''))] 0 []) \<and>
   opened (receive_loop [([], Exhausted), ([], Raises (Exn OtherException ''boom''))] 0 []) = 2 \<and>
   (\<exists>evs. events (receive_loop [([], Exhausted), ([], Raises (Exn OtherException ''boom''))] 0 []) =
            evs @ [ErrorEvent ''boom'', EndEvent] \<and> \<not> list_ex is_terminal evs)"
proof -
  let ?s = "([], Raises (Exn OtherException ''boom'')) :: stream"
  let ?script = "[([], Exhausted), ?s]"
  have c: "list_all clean [([], Exhausted)]"
    by (simp add: clean_def)
  have f: "fails ?s (Exn OtherException ''boom'')"
    by (simp add: fails_def)
  have shape: "?script = [([], Exhausted)] @ ?s # []"
    by simp
  from receive_loop_terminal_events [of ?script]
  have "\<forall>pre s post e. ?script = pre @ s # post \<and> list_all clean pre \<and> fails s e \<longrightarrow>
      stopped (receive_loop ?script 0 []) \<and>
      opened (receive_loop ?script 0 []) = Suc (length pre) \<and>
      (\<exists>evs. events (receive_loop ?script 0 []) = evs @ [ErrorEvent (exn_str e), EndEvent] \<and>
             \<not> list_ex is_terminal evs)"
    by (rule conjunct2)
  then have "?script = [([], Exhausted)] @ ?s # [] \<and> list_all clean [([], Exhausted)] \<and>
        fails ?s (Exn OtherException ''boom'') \<longrightarrow>
      stopped (receive_loop ?script 0 []) \<and>
      opened (receive_loop ?script 0 []) = Suc (length [([], Exhausted) :: stream]) \<and>
      (\<exists>evs. events (receive_loop ?script 0 []) =
              evs @ [ErrorEvent (exn_str (Exn OtherException ''boom'')), EndEvent] \<and>
             \<not> list_ex is_terminal evs)"
    by blast
  with shape c f show ?thesis
    by simp
qed

section \<open>Properties of the connection gate and the supervisor\<close>

lemma setup_handshake_refused:
  "refused frame \<Longrightarrow> \<exists>reason. setup_handshake frame = CloseSetup 4000 reason"
  by (auto simp: refused_def setup_handshake_def on_setup_error_def
      split: setup_frame.splits sum.splits json.splits)

lemma setup_handshake_proceeds:
  "\<not> refused frame \<Longrightarrow> setup_handshake frame = Proceed (setup_of frame)"
  by (auto simp: refused_def setup_handshake_def setup_of_def
      split: setup_frame.splits sum.splits json.splits option.splits)

lemma authenticated_endpoint:
  assumes "authenticated w"
  shows "websocket_endpoint sdk w =
     (case setup_handshake (first_frame w) of
        CloseSetup code reason \<Rightarrow> \<lparr> trace = [Accept, ReceiveText, Close code reason], uncaught = None \<rparr>
      | Proceed setup_config \<Rightarrow>
          (supervise w (run_session sdk w setup_config))
            \<lparr>trace := session_prologue @ trace (supervise w (run_session sdk w setup_config))\<rparr>)"
proof -
  from assms obtain claims where c: "verify_ws_token (verify_firebase_token w) (ws w) = Inr claims"
    and d: "is_dict claims"
    by (auto simp: authenticated_def split: sum.splits)
  from d obtain kvs where "claims = JObj kvs"
    by (cases claims) auto
  with c show ?thesis
    by (simp add: websocket_endpoint_def session_prologue_def Let_def split: option.splits handshake.splits)
qed

lemma example_authenticated:
  "authenticated (example_world\<lparr>first_frame := f, notice_error := n, close_error := c\<rparr>)"
  by (simp add: authenticated_def example_world_def verify_ws_token_def no_token_def)

lemma example_run:
  "run_session (\<lambda>c. None) (example_world\<lparr>first_frame := f, notice_error := n, close_error := c\<rparr>) JNull =
     (Connect default_config_args # session_startup @ [SendJson setup_complete_json] @ session_cleanup,
      TimedOut)"
  by (simp add: run_session_def start_session_config_def example_world_def event_queue_def)

text \<open>
  Claim C3, as the code has it. The claim says that a first frame without the setup object
  closes the connection with the setup close code and creates no session. The code logs
  a warning for such a frame and goes on with no setup configuration. For the first frame
  \<^verbatim>\<open>{}\<close> on an authenticated connection the handshake proceeds, the queues and the ingress
  task are created, the upstream connection is opened with the default configuration and
  \<^verbatim>\<open>{"setupComplete": true}\<close> is sent; the connection closes only when the session ends
  (here by its time limit, the upstream being silent), with code 1000.
\<close>

theorem missing_setup_starts_session:
  "first_frame example_world = Text (Inr (JObj [])) \<and>
   setup_handshake (first_frame example_world) = Proceed JNull \<and>
   trace (websocket_endpoint (\<lambda>c. None) example_world) =
     session_prologue @ Connect default_config_args # session_startup @
       [SendJson setup_complete_json] @ session_cleanup @
       [SendJson time_limit_notice, CancelTask ReceiveFromClient, Close 1000 []]"
proof -
  have f: "first_frame example_world = Text (Inr (JObj []))"
    by (simp add: example_world_def)
  have h: "setup_handshake (first_frame example_world) = Proceed JNull"
    by (simp add: f setup_handshake_def)
  have w: "example_world\<lparr>first_frame := first_frame example_world,
      notice_error := notice_error example_world, close_error := close_error example_world\<rparr> = example_world"
    by simp
  have a: "authenticated example_world"
    using example_authenticated [where f = "first_frame example_world"
        and n = "notice_error example_world" and c = "close_error example_world"]
    by (simp only: w)
  have r: "run_session (\<lambda>c. None) example_world JNull =
     (Connect default_config_args # session_startup @ [SendJson setup_complete_json] @ session_cleanup,
      TimedOut)"
    using example_run [where f = "first_frame example_world"
        and n = "notice_error example_world" and c = "close_error example_world"]
    by (simp only: w)
  have "trace (websocket_endpoint (\<lambda>c. None) example_world) =
     session_prologue @ Connect default_config_args # session_startup @
       [SendJson setup_complete_json] @ session_cleanup @
       [SendJson time_limit_notice, CancelTask ReceiveFromClient, Close 1000 []]"
    by (simp add: authenticated_endpoint [OF a] h r supervise_def on_time_limit_def)
  with f h show ?thesis
    by simp
qed

text \<open>
  Claim C3, amended. On an authenticated connection, a first frame that does not arrive in
  time, cannot be received as text, is not JSON, or is a JSON value on which the lookup of
  \<^verbatim>\<open>setup\<close> raises, closes the connection with code 4000 after the accept and the wait, and
  nothing of a session is created: no queue, no task, no upstream connection. Every other
  first frame, with or without a setup object, starts the session: the queues and the
  ingress task are created and \<^verbatim>\<open>run_session\<close> runs under the supervisor with the frame's
  setup object, or with none when the frame lacks it.
\<close>

theorem setup_handshake_outcomes:
  assumes "authenticated w"
  shows "(refused (first_frame w) \<longrightarrow>
            (\<exists>reason. trace (websocket_endpoint sdk w) = [Accept, ReceiveText, Close 4000 reason]) \<and>
            \<not> list_ex starts_session (trace (websocket_endpoint sdk w))) \<and>
         (\<not> refused (first_frame w) \<longrightarrow>
            trace (websocket_endpoint sdk w) =
              session_prologue @ trace (supervise w (run_session sdk w (setup_of (first_frame w)))))"
proof (intro conjI impI)
  assume r: "refused (first_frame w)"
  then obtain reason where "setup_handshake (first_frame w) = CloseSetup 4000 reason"
    using setup_handshake_refused by blast
  then have t: "trace (websocket_endpoint sdk w) = [Accept, ReceiveText, Close 4000 reason]"
    by (simp add: authenticated_endpoint [OF assms])
  then show "\<exists>reason. trace (websocket_endpoint sdk w) = [Accept, ReceiveText, Close 4000 reason]"
    by blast
  from t show "\<not> list_ex starts_session (trace (websocket_endpoint sdk w))"
    by simp
next
  assume "\<not> refused (first_frame w)"
  then have "setup_handshake (first_frame w) = Proceed (setup_of (first_frame w))"
    by (rule setup_handshake_proceeds)
  then show "trace (websocket_endpoint sdk w) =
      session_prologue @ trace (supervise w (run_session sdk w (setup_of (first_frame w))))"
    by (simp add: authenticated_endpoint [OF assms])
qed

theorem setup_handshake_outcomes_witness:
  "authenticated (example_world\<lparr>first_frame := NoText TimeoutError, notice_error := None, close_error := None\<rparr>) \<and>
   refused (NoText TimeoutError) \<and>
   (\<exists>reason. trace (websocket_endpoint (\<lambda>c. None)
        (example_world\<lparr>first_frame := NoText TimeoutError, notice_error := None, close_error := None\<rparr>)) =
      [Accept, ReceiveText, Close 4000 reason]) \<and>
   \<not> list_ex starts_session (trace (websocket_endpoint (\<lambda>c. None)
        (example_world\<lparr>first_frame := NoText TimeoutError, notice_error := None, close_error := None\<rparr>)))"
proof -
  let ?w = "example_world\<lparr>first_frame := NoText TimeoutError, notice_error := None, close_error := None\<rparr>"
  have a: "authenticated ?w"
    by (rule example_authenticated)
  have r: "refused (first_frame ?w)"
    by (simp add: refused_def)
  from setup_handshake_outcomes [OF a, of "\<lambda>c. None"] r
  have "(\<exists>reason. trace (websocket_endpoint (\<lambda>c. None) ?w) = [Accept, ReceiveText, Close 4000 reason]) \<and>
      \<not> list_ex starts_session (trace (websocket_endpoint (\<lambda>c. None) ?w))"
    by blast
  with a show ?thesis
    by (simp add: refused_def)
qed

lemma egress_writes:
  "list_all is_write (fst (egress wr dl n evs))"
proof (induction evs arbitrary: n)
  case Nil
  then show ?case by simp
next
  case (Cons ev evs)
  have w: "is_write a" if "write_of ev = Some a" for a
    using that by (cases ev) auto
  show ?case
    using Cons.IH [of "Suc n"] w
    by (auto split: option.splits prod.splits)
qed

lemma track_writes:
  "list_all is_write acts \<Longrightarrow> foldl track ts acts = ts"
proof (induction acts arbitrary: ts)
  case Nil
  then show ?case by simp
next
  case (Cons a acts)
  then have "is_write a" "list_all is_write acts"
    by simp_all
  then have "track ts a = ts"
    by (cases a) auto
  with Cons show ?case
    by simp
qed

lemma run_session_tasks:
  "foldl track [ReceiveFromClient] (fst (run_session sdk w setup_config)) = [ReceiveFromClient]"
proof -
  have "foldl track [ReceiveFromClient]
          (Connect c # session_startup @ fst (egress wr dl 0 evs) @ session_cleanup) =
        [ReceiveFromClient]"
    for c wr dl evs
    by (simp add: session_startup_def session_cleanup_def track_writes [OF egress_writes])
  then show ?thesis
    by (auto simp: run_session_def split: sum.splits connection.splits prod.splits)
      (metis fst_conv)+
qed

text \<open>
  Claim C4. When the time limit of a session passes (\<^verbatim>\<open>wait_for\<close> cancels \<^verbatim>\<open>run_session\<close>
  and raises the timeout), the supervisor makes exactly one write of
  \<^verbatim>\<open>{"error": "Session time limit reached"}\<close> after what the session had done, then cancels
  the ingress task and closes the transport. No exception leaves the endpoint, whether or
  not that write or the close fails, and no task created during the connection is left
  uncancelled.
\<close>

theorem time_limit_teardown:
  assumes auth: "authenticated w"
    and proceeds: "\<not> refused (first_frame w)"
    and expired: "run_session sdk w (setup_of (first_frame w)) = (acts, TimedOut)"
  shows "trace (websocket_endpoint sdk w) =
           session_prologue @ acts @
             [SendJson time_limit_notice, CancelTask ReceiveFromClient, Close 1000 []] \<and>
         uncaught (websocket_endpoint sdk w) = None \<and>
         live_tasks (trace (websocket_endpoint sdk w)) = []"
proof -
  have h: "setup_handshake (first_frame w) = Proceed (setup_of (first_frame w))"
    using proceeds by (rule setup_handshake_proceeds)
  have sup: "supervise w (acts, TimedOut) =
      \<lparr> trace = acts @ [SendJson time_limit_notice, CancelTask ReceiveFromClient, Close 1000 []],
        uncaught = None \<rparr>"
    by (simp add: supervise_def on_time_limit_def swallow_def split: option.splits)
  have t: "trace (websocket_endpoint sdk w) =
      session_prologue @ acts @ [SendJson time_limit_notice, CancelTask ReceiveFromClient, Close 1000 []]"
    and u: "uncaught (websocket_endpoint sdk w) = None"
    by (simp_all add: authenticated_endpoint [OF auth] h expired sup)
  have "foldl track [ReceiveFromClient] acts = [ReceiveFromClient]"
    using run_session_tasks [of sdk w "setup_of (first_frame w)"] expired
    by simp
  then have "live_tasks (trace (websocket_endpoint sdk w)) = []"
    by (simp add: t live_tasks_def session_prologue_def)
  with t u show ?thesis
    by simp
qed

theorem time_limit_teardown_witness:
  "authenticated (example_world\<lparr>first_frame := Text (Inr (JObj [])),
       notice_error := Some OtherException, close_error := Some OtherException\<rparr>) \<and>
   trace (websocket_endpoint (\<lambda>c. None)
     (example_world\<lparr>first_frame := Text (Inr (JObj [])),
       notice_error := Some OtherException, close_error := Some OtherException\<rparr>)) =
     session_prologue @
       (Connect default_config_args # session_startup @ [SendJson setup_complete_json] @ session_cleanup) @
       [SendJson time_limit_notice, CancelTask ReceiveFromClient, Close 1000 []] \<and>
   uncaught (websocket_endpoint (\<lambda>c. None)
     (example_world\<lparr>first_frame := Text (Inr (JObj [])),
       notice_error := Some OtherException, close_error := Some OtherException\<rparr>)) = None \<and>
   live_tasks (trace (websocket_endpoint (\<lambda>c. None)
     (example_world\<lparr>first_frame := Text (Inr (JObj [])),
       notice_error := Some OtherException, close_error := Some OtherException\<rparr>))) = []"
proof -
  let ?w = "example_world\<lparr>first_frame := Text (Inr (JObj [])),
       notice_error := Some OtherException, close_error := Some OtherException\<rparr>"
  have a: "authenticated ?w"
    by (rule example_authenticated)
  have p: "\<not> refused (first_frame ?w)"
    by (simp add: refused_def)
  have s: "setup_of (first_frame ?w) = JNull"
    by (simp add: setup_of_def)
  have r: "run_session (\<lambda>c. None) ?w (setup_of (first_frame ?w)) =
     (Connect default_config_args # session_startup @ [SendJson setup_complete_json] @ session_cleanup,
      TimedOut)"
    unfolding s by (rule example_run)
  from time_limit_teardown [OF a p r] a show ?thesis
    by blast
qed

text \<open>
  Claim C6. When the verification of the token fails (\<^verbatim>\<open>verify_ws_token\<close> raises a
  \<^verbatim>\<open>ValueError\<close>), the endpoint accepts the transport and closes it at once with code 4001
  and the reason of the failure; it never waits for a setup frame and creates no queue, task
  or upstream connection. The code differs from the one every refusal of the setup
  handshake uses (4000) and from the one of the close at the end of a session (1000).
\<close>

theorem auth_failure_closes_4001:
  assumes "verify_ws_token (verify_firebase_token w) (ws w) = Inl e"
    and "is_ValueError (exn_class e)"
  shows "trace (websocket_endpoint sdk w) = [Accept, Close 4001 (''Auth failed: '' @ exn_str e)] \<and>
         uncaught (websocket_endpoint sdk w) = None \<and>
         ReceiveText \<notin> set (trace (websocket_endpoint sdk w)) \<and>
         \<not> list_ex starts_session (trace (websocket_endpoint sdk w)) \<and>
         (\<forall>frame code reason. setup_handshake frame = CloseSetup code reason \<longrightarrow> code = 4000) \<and>
         (\<forall>w' run. last (trace (supervise w' run)) = Close 1000 [])"
proof -
  have t: "trace (websocket_endpoint sdk w) = [Accept, Close 4001 (''Auth failed: '' @ exn_str e)]"
    and u: "uncaught (websocket_endpoint sdk w) = None"
    using assms by (simp_all add: websocket_endpoint_def)
  have c: "code = 4000" if "setup_handshake frame = CloseSetup code reason" for frame code reason
    using that
    by (auto simp: setup_handshake_def on_setup_error_def
        split: setup_frame.splits sum.splits bool.splits if_splits)
  have l: "last (trace (supervise w' run)) = Close 1000 []" for w' run
    by (cases run) (simp add: supervise_def split: prod.splits)
  from t u c l show ?thesis
    by simp
qed

theorem auth_failure_closes_4001_witness:
  "verify_ws_token (verify_firebase_token example_world) \<lparr> query_token = None, authorization = Some ''Basic abc'' \<rparr> =
     Inl (Exn ValueError ''Missing auth token'') \<and>
   trace (websocket_endpoint (\<lambda>c. None)
     (example_world\<lparr>ws := \<lparr> query_token = None, authorization = Some ''Basic abc'' \<rparr>\<rparr>)) =
     [Accept, Close 4001 ''Auth failed: Missing auth token'']"
proof -
  let ?w = "example_world\<lparr>ws := \<lparr> query_token = None, authorization = Some ''Basic abc'' \<rparr>\<rparr>"
  have v: "verify_ws_token (verify_firebase_token ?w) (ws ?w) = Inl (Exn ValueError ''Missing auth token'')"
    by (simp add: verify_ws_token_def no_token_def lower_char_def)
  have e: "is_ValueError (exn_class (Exn ValueError ''Missing auth token''))"
    by simp
  from auth_failure_closes_4001 [OF v e, of "\<lambda>c. None"]
  have "trace (websocket_endpoint (\<lambda>c. None) ?w) =
      [Accept, Close 4001 (''Auth failed: '' @ exn_str (Exn ValueError ''Missing auth token''))]"
    by (rule conjunct1)
  with v show ?thesis
    by simp
qed

lemma event_queue_head:
  "\<exists>rest. event_queue w = SetupCompleteEvent # rest"
  using receive_loop_extends [of "upstream w" 0 "[SetupCompleteEvent]"]
  by (auto simp: event_queue_def)

lemma egress_first_write:
  "fst (egress wr dl 0 (SetupCompleteEvent # rest)) = [] \<or>
   hd (fst (egress wr dl 0 (SetupCompleteEvent # rest))) = SendJson setup_complete_json"
  by (auto split: option.splits prod.splits)

lemma filter_writes:
  "list_all is_write acts \<Longrightarrow> filter is_write acts = acts"
  by (induction acts) auto

lemma run_session_writes:
  "filter is_write (fst (run_session sdk w setup_config)) = [] \<or>
   hd (filter is_write (fst (run_session sdk w setup_config))) = SendJson setup_complete_json"
proof -
  obtain rest where q: "event_queue w = SetupCompleteEvent # rest"
    using event_queue_head by blast
  have f: "filter is_write (Connect c # session_startup @ acts @ session_cleanup) = acts"
    if "list_all is_write acts" for c acts
    using that by (simp add: session_startup_def session_cleanup_def filter_writes)
  show ?thesis
  proof (cases "start_session_config sdk setup_config")
    case (Inl e)
    then show ?thesis by (simp add: run_session_def)
  next
    case (Inr config)
    show ?thesis
    proof (cases "connection w")
      case Connected
      obtain writes out where eg: "egress (write_error w) (deadline w) 0 (event_queue w) = (writes, out)"
        by (cases "egress (write_error w) (deadline w) 0 (event_queue w)")
      have wr: "list_all is_write writes"
        using egress_writes [of "write_error w" "deadline w" 0 "event_queue w"] eg by simp
      have first: "writes = [] \<or> hd writes = SendJson setup_complete_json"
        using egress_first_write [of "write_error w" "deadline w" rest] eg q by simp
      have acts: "fst (run_session sdk w setup_config) =
          Connect config # session_startup @ writes @ session_cleanup"
        by (simp add: run_session_def Inr Connected eg)
      show ?thesis
        unfolding acts f [OF wr] by (rule first)
    next
      case (ConnectRaises e)
      then show ?thesis by (simp add: run_session_def Inr)
    next
      case ConnectTimesOut
      then show ?thesis by (simp add: run_session_def Inr)
    qed
  qed
qed

lemma run_session_order:
  "\<not> list_ex creates_task (before_setup_complete (fst (run_session sdk w setup_config))) \<and>
   \<not> list_ex is_write (before_setup_complete (fst (run_session sdk w setup_config)))"
  by (auto simp: run_session_def before_setup_complete_def session_startup_def
      split: sum.splits connection.splits prod.splits)

lemma supervise_writes:
  "filter is_write (trace (supervise w (acts, out))) = filter is_write acts \<or>
   filter is_write (trace (supervise w (acts, out))) = filter is_write acts @ [SendJson time_limit_notice]"
  by (cases out) (simp_all add: supervise_def on_time_limit_def)

lemma endpoint_trace_shape:
  "trace (websocket_endpoint sdk w) = [] \<or>
   (\<exists>c r. trace (websocket_endpoint sdk w) = [Accept, Close c r]) \<or>
   (\<exists>c r. trace (websocket_endpoint sdk w) = [Accept, ReceiveText, Close c r]) \<or>
   (\<exists>s. trace (websocket_endpoint sdk w) = session_prologue @ trace (supervise w (run_session sdk w s)))"
  by (auto simp: websocket_endpoint_def session_prologue_def Let_def
      split: sum.splits handshake.splits)

lemma endpoint_writes:
  "filter is_write (trace (websocket_endpoint sdk w)) = [] \<or>
   hd (filter is_write (trace (websocket_endpoint sdk w))) = SendJson setup_complete_json \<or>
   filter is_write (trace (websocket_endpoint sdk w)) = [SendJson time_limit_notice]"
proof -
  have session: "filter is_write (session_prologue @ trace (supervise w (run_session sdk w s))) = [] \<or>
      hd (filter is_write (session_prologue @ trace (supervise w (run_session sdk w s)))) =
        SendJson setup_complete_json \<or>
      filter is_write (session_prologue @ trace (supervise w (run_session sdk w s))) =
        [SendJson time_limit_notice]" for s
  proof -
    obtain acts out where r: "run_session sdk w s = (acts, out)"
      by (cases "run_session sdk w s")
    have p: "filter is_write (session_prologue @ xs) = filter is_write xs" for xs
      by (simp add: session_prologue_def)
    from run_session_writes [of sdk w s] r
    have first: "filter is_write acts = [] \<or> hd (filter is_write acts) = SendJson setup_complete_json"
      by simp
    from supervise_writes [of w acts out] first show ?thesis
      unfolding p r by (cases "filter is_write acts") auto
  qed
  from endpoint_trace_shape [of sdk w] show ?thesis
  proof (elim disjE exE)
    fix s
    assume "trace (websocket_endpoint sdk w) = session_prologue @ trace (supervise w (run_session sdk w s))"
    with session [of s] show ?thesis
      by simp
  qed auto
qed

text \<open>
  Claim C9. The event queue of a session starts with the setup-complete event; in what
  \<^verbatim>\<open>run_session\<close> does, no task is created and nothing is written to the client before
  that event is put on the queue; and the first write of \<^verbatim>\<open>run_session\<close> to the client, if
  it makes any, is \<^verbatim>\<open>{"setupComplete": true}\<close>. Over the whole connection the first write
  on the client transport is therefore \<^verbatim>\<open>{"setupComplete": true}\<close>, unless the session
  wrote nothing at all, in which case the only write there can be is the supervisor's
  time-limit notice.
\<close>

theorem setup_complete_first:
  "(\<exists>rest. event_queue w = SetupCompleteEvent # rest) \<and>
   \<not> list_ex creates_task (before_setup_complete (fst (run_session sdk w setup_config))) \<and>
   \<not> list_ex is_write (before_setup_complete (fst (run_session sdk w setup_config))) \<and>
   (filter is_write (fst (run_session sdk w setup_config)) = [] \<or>
    hd (filter is_write (fst (run_session sdk w setup_config))) = SendJson setup_complete_json) \<and>
   (filter is_write (trace (websocket_endpoint sdk w)) = [] \<or>
    hd (filter is_write (trace (websocket_endpoint sdk w))) = SendJson setup_complete_json \<or>
    filter is_write (trace (websocket_endpoint sdk w)) = [SendJson time_limit_notice])"
  using event_queue_head run_session_order run_session_writes endpoint_writes by blast

theorem setup_complete_first_witness:
  "event_queue example_world = [SetupCompleteEvent] \<and>
   filter is_write (fst (run_session (\<lambda>c. None) example_world JNull)) \<noteq> [] \<and>
   hd (filter is_write (fst (run_session (\<lambda>c. None) example_world JNull))) = SendJson setup_complete_json"
proof -
  have q: "event_queue example_world = [SetupCompleteEvent]"
    by (simp add: event_queue_def example_world_def)
  have w: "example_world\<lparr>first_frame := first_frame example_world,
      notice_error := notice_error example_world, close_error := close_error example_world\<rparr> = example_world"
    by simp
  have r: "run_session (\<lambda>c. None) example_world JNull =
     (Connect default_config_args # session_startup @ [SendJson setup_complete_json] @ session_cleanup,
      TimedOut)"
    using example_run [where f = "first_frame example_world"
        and n = "notice_error example_world" and c = "close_error example_world"]
    by (simp only: w)
  have ne: "filter is_write (fst (run_session (\<lambda>c. None) example_world JNull)) \<noteq> []"
    by (simp add: r session_startup_def session_cleanup_def)
  from setup_complete_first [of example_world "\<lambda>c. None" JNull] ne
  have "hd (filter is_write (fst (run_session (\<lambda>c. None) example_world JNull))) = SendJson setup_complete_json"
    by blast
  with q ne show ?thesis
    by simp
qed

end
